theory Spec2Isabelle
  imports Main
begin

section \<open>Exceptions and string helpers\<close>

text \<open>
  The module under verification is \<^verbatim>\<open>devtoolkit/src/python-runtime/sandbox_wrapper.py\<close>.
  Every \<^verbatim>\<open>raise\<close> of the module is a value of \<open>exn\<close>. A \<^verbatim>\<open>SecurityError\<close> carries
  the reason it was raised for (the source formats it into the message). \<open>pyval\<close> is a
  Python value where the source does not fix its type.
\<close>

datatype pyval = PyStr string | PyInt int | PyNone

datatype violation =
    Import_restricted string
  | Import_dangerous string
  | File_access string bool
  | Deletion_blocked
  | Network_not_allowed
  | Host_not_allowed string
  | Port_not_allowed int
  | Http_host_not_allowed pyval
  | Http_port_not_allowed pyval

datatype exn =
    SecurityError violation
  | SandboxException string
  | AttributeError string
  | ImportError string
  | TypeError string
  | ValueError string
  | Other_exception string

text \<open>\<^verbatim>\<open>s.startswith(p)\<close>.\<close>

definition startswith :: "string \<Rightarrow> string \<Rightarrow> bool" where
  "startswith s p = (take (length p) s = p)"

text \<open>\<^verbatim>\<open>s.split(c)\<close> for a one-character separator: the result is never empty.\<close>

fun split_on :: "char \<Rightarrow> string \<Rightarrow> string list" where
  "split_on c [] = [[]]"
| "split_on c (x # xs) =
     (if x = c then [] # split_on c xs
      else (case split_on c xs of
              w # ws \<Rightarrow> (x # w) # ws
            | [] \<Rightarrow> [[x]]))"

text \<open>\<^verbatim>\<open>sep.join(parts)\<close>.\<close>

fun join_with :: "string \<Rightarrow> string list \<Rightarrow> string" where
  "join_with sep [] = []"
| "join_with sep [w] = w"
| "join_with sep (w # v # ws) = w @ sep @ join_with sep (v # ws)"

section \<open>The process-wide interception points\<close>

text \<open>
  The guards patch attributes of \<^verbatim>\<open>builtins\<close>, \<^verbatim>\<open>pathlib.Path\<close>, \<^verbatim>\<open>os\<close>, \<^verbatim>\<open>socket\<close>,
  \<^verbatim>\<open>urllib.request\<close> and \<^verbatim>\<open>http.client.HTTPConnection\<close>. The value of such an attribute
  is either the function the interpreter or the library put there, or a bound method of
  a guard; a bound method is written with the configuration of the guard it belongs to.
  \<open>sys_modules\<close> is the set of modules already imported. \<open>first_import\<close> is the standard
  library's part in an import: what running the code of a module that is not imported
  yet ends with (\<open>None\<close>: the module loads), given the current values of
  \<^verbatim>\<open>builtins.__import__\<close> and \<^verbatim>\<open>socket.socket\<close>.
\<close>

datatype import_fn = Builtin_import | Secure_import "string list"

datatype open_fn =
    Builtin_open
  | Pathlib_open
  | Secure_open "string list" "string list"
  | Secure_path_open "string list" "string list"

datatype remove_fn = Os_remove | Os_unlink | Block_remove

datatype socket_fn = Socket_class | Secure_socket "string list"

datatype urlopen_fn = Urllib_urlopen | Secure_urlopen "string list" "int list" bool

datatype http_init_fn = HTTPConnection_init | Secure_http_connect "string list" "int list" bool

record ambient =
  environ :: "string \<rightharpoonup> string"
  cwd :: string
  builtins_import :: import_fn
  builtins_open :: open_fn
  Path_open :: open_fn
  os_remove :: remove_fn
  os_unlink :: remove_fn
  socket_socket :: socket_fn
  urllib_request_urlopen :: urlopen_fn
  HTTPConnection_init_attr :: http_init_fn
  sys_modules :: "string set"
  first_import :: "import_fn \<Rightarrow> socket_fn \<Rightarrow> string \<Rightarrow> exn option"

section \<open>RestrictedImportHook\<close>

record RestrictedImportHook =
  allowed_imports :: "string list"
  original_import :: import_fn

definition RestrictedImportHook_init :: "string list \<Rightarrow> ambient \<Rightarrow> RestrictedImportHook" where
  "RestrictedImportHook_init allowed a =
     \<lparr>allowed_imports = allowed, original_import = builtins_import a\<rparr>"

definition RestrictedImportHook_enter :: "RestrictedImportHook \<Rightarrow> ambient \<Rightarrow> ambient" where
  "RestrictedImportHook_enter h a = a\<lparr>builtins_import := Secure_import (allowed_imports h)\<rparr>"

definition RestrictedImportHook_exit :: "RestrictedImportHook \<Rightarrow> ambient \<Rightarrow> ambient" where
  "RestrictedImportHook_exit h a = a\<lparr>builtins_import := original_import h\<rparr>"

definition dangerous_modules :: "string list" where
  "dangerous_modules =
     [''subprocess'', ''os.system'', ''shutil.rmtree'', ''pty'',
      ''socket'', ''smtplib'', ''ftplib'']"

text \<open>
  \<^verbatim>\<open>secure_import\<close>: \<open>Inr name\<close> is the call \<^verbatim>\<open>self.original_import(name, ...)\<close>, that is,
  the import is let through.
\<close>

definition secure_import :: "string list \<Rightarrow> string \<Rightarrow> exn + string" where
  "secure_import allowed name =
     (let module_parts = split_on CHR ''.'' name;
          base_module = (case module_parts of b # _ \<Rightarrow> b | [] \<Rightarrow> [])
      in if base_module \<notin> set allowed \<and> name \<notin> set allowed
         then Inl (SecurityError (Import_restricted name))
         else if list_ex (\<lambda>dangerous. startswith name dangerous) dangerous_modules
         then Inl (SecurityError (Import_dangerous name))
         else Inr name)"

text \<open>
  The interpreter's own import function returns a module of \<^verbatim>\<open>sys.modules\<close> as it is, and
  loads a module that is not there yet, which runs the module's code.
\<close>

definition builtin_import :: "ambient \<Rightarrow> string \<Rightarrow> exn + ambient" where
  "builtin_import a name =
     (if name \<in> sys_modules a then Inr a
      else case first_import a (builtins_import a) (socket_socket a) name of
             Some e \<Rightarrow> Inl e
           | None \<Rightarrow> Inr (a\<lparr>sys_modules := insert name (sys_modules a)\<rparr>))"

text \<open>
  An \<^verbatim>\<open>import m\<close> statement, wherever it stands (also in the wrapper's own methods),
  calls whatever \<^verbatim>\<open>builtins.__import__\<close> holds at that moment. When \<^verbatim>\<open>secure_import\<close> lets
  the name through, it calls the function the hook saved, taken to be the interpreter's.
\<close>

definition import_statement :: "ambient \<Rightarrow> string \<Rightarrow> exn + ambient" where
  "import_statement a name =
     (case builtins_import a of
        Builtin_import \<Rightarrow> builtin_import a name
      | Secure_import allowed \<Rightarrow>
          (case secure_import allowed name of
             Inl e \<Rightarrow> Inl e
           | Inr _ \<Rightarrow> builtin_import a name))"

section \<open>Path canonicalisation\<close>

text \<open>
  \<^verbatim>\<open>os.path.abspath\<close> on a POSIX host: \<^verbatim>\<open>normpath(join(os.getcwd(), path))\<close>. The loop of
  \<^verbatim>\<open>posixpath.normpath\<close> over the components is \<open>norm_comps\<close>; its first argument is
  the number of leading slashes kept (0, 1 or 2).
\<close>

fun norm_comps :: "nat \<Rightarrow> string list \<Rightarrow> string list \<Rightarrow> string list" where
  "norm_comps i [] new_comps = new_comps"
| "norm_comps i (cmp # comps) new_comps =
     (if cmp = [] \<or> cmp = ''.'' then norm_comps i comps new_comps
      else if cmp \<noteq> ''..'' \<or> (i = 0 \<and> new_comps = []) \<or>
              (new_comps \<noteq> [] \<and> last new_comps = ''..'')
           then norm_comps i comps (new_comps @ [cmp])
      else if new_comps \<noteq> [] then norm_comps i comps (butlast new_comps)
      else norm_comps i comps new_comps)"

definition normpath :: "string \<Rightarrow> string" where
  "normpath path =
     (if path = [] then ''.''
      else
        let initial_slashes =
              (if startswith path ''/''
               then (if startswith path ''//'' \<and> \<not> startswith path ''///''
                     then 2 else 1)
               else (0::nat));
            comps = norm_comps initial_slashes (split_on CHR ''/'' path) [];
            p = replicate initial_slashes CHR ''/'' @ join_with ''/'' comps
        in if p = [] then ''.'' else p)"

definition path_join :: "string \<Rightarrow> string \<Rightarrow> string" where
  "path_join a b =
     (if startswith b ''/'' then b
      else if a = [] \<or> last a = CHR ''/'' then a @ b
      else a @ ''/'' @ b)"

definition abspath :: "string \<Rightarrow> string \<Rightarrow> string" where
  "abspath working_dir path =
     normpath (if startswith path ''/'' then path else path_join working_dir path)"

section \<open>RestrictedFileSystem\<close>

record RestrictedFileSystem =
  read_paths :: "string list"
  write_paths :: "string list"
  allow_delete :: bool
  original_open :: open_fn

definition RestrictedFileSystem_init ::
  "string list \<Rightarrow> string list \<Rightarrow> bool \<Rightarrow> ambient \<Rightarrow> RestrictedFileSystem" where
  "RestrictedFileSystem_init rp wp ad a =
     \<lparr>read_paths = map (abspath (cwd a)) rp,
      write_paths = map (abspath (cwd a)) wp,
      allow_delete = ad,
      original_open = builtins_open a\<rparr>"

definition RestrictedFileSystem_enter :: "RestrictedFileSystem \<Rightarrow> ambient \<Rightarrow> ambient" where
  "RestrictedFileSystem_enter fs a =
     (let a1 = a\<lparr>builtins_open := Secure_open (read_paths fs) (write_paths fs)\<rparr>;
          a2 = a1\<lparr>Path_open := Secure_path_open (read_paths fs) (write_paths fs)\<rparr>
      in if \<not> allow_delete fs
         then a2\<lparr>os_remove := Block_remove, os_unlink := Block_remove\<rparr>
         else a2)"

definition RestrictedFileSystem_exit :: "RestrictedFileSystem \<Rightarrow> ambient \<Rightarrow> ambient" where
  "RestrictedFileSystem_exit fs a = a\<lparr>builtins_open := original_open fs\<rparr>"

text \<open>The two \<^verbatim>\<open>for allowed_path in ...: if filepath.startswith(allowed_path): return True\<close> loops.\<close>

primrec starts_with_any :: "string \<Rightarrow> string list \<Rightarrow> bool" where
  "starts_with_any filepath [] = False"
| "starts_with_any filepath (allowed_path # rest) =
     (if startswith filepath allowed_path then True else starts_with_any filepath rest)"

definition is_path_allowed ::
  "string \<Rightarrow> string list \<Rightarrow> string list \<Rightarrow> string \<Rightarrow> bool \<Rightarrow> bool" where
  "is_path_allowed working_dir rpaths wpaths filepath write_mode =
     (let filepath' = abspath working_dir filepath
      in if write_mode then starts_with_any filepath' wpaths
         else starts_with_any filepath' rpaths)"

text \<open>\<^verbatim>\<open>any(char in mode for char in 'wax+')\<close>.\<close>

definition is_write_mode :: "string \<Rightarrow> bool" where
  "is_write_mode mode = list_ex (\<lambda>char. char \<in> set mode) ''wax+''"

text \<open>
  A call that a guard lets through is handed to the function the guard saved, with the
  arguments shown: \<open>Open_call file mode\<close> is \<^verbatim>\<open>self.original_open(file, mode, ...)\<close>.
\<close>

datatype open_call = Open_call string string

definition secure_open ::
  "string \<Rightarrow> string list \<Rightarrow> string list \<Rightarrow> string \<Rightarrow> string \<Rightarrow> exn + open_call" where
  "secure_open working_dir rpaths wpaths file mode =
     (let write_mode = is_write_mode mode
      in if \<not> is_path_allowed working_dir rpaths wpaths file write_mode
         then Inl (SecurityError (File_access file write_mode))
         else Inr (Open_call file mode))"

definition secure_path_open ::
  "string \<Rightarrow> string list \<Rightarrow> string list \<Rightarrow> string \<Rightarrow> string \<Rightarrow> exn + open_call" where
  "secure_path_open working_dir rpaths wpaths path_self mode =
     (let filepath = path_self;
          write_mode = is_write_mode mode
      in if \<not> is_path_allowed working_dir rpaths wpaths filepath write_mode
         then Inl (SecurityError (File_access filepath write_mode))
         else Inr (Open_call filepath mode))"

datatype remove_call = Remove_call string

definition block_remove :: "string \<Rightarrow> exn + remove_call" where
  "block_remove path = Inl (SecurityError Deletion_blocked)"

text \<open>
  What sandboxed code gets when it calls \<^verbatim>\<open>open(file, mode)\<close>, \<^verbatim>\<open>os.remove(path)\<close> or
  \<^verbatim>\<open>os.unlink(path)\<close>: the call goes to the current value of the attribute.
\<close>

definition call_open :: "ambient \<Rightarrow> string \<Rightarrow> string \<Rightarrow> exn + open_call" where
  "call_open a file mode =
     (case builtins_open a of
        Secure_open rp wp \<Rightarrow> secure_open (cwd a) rp wp file mode
      | Secure_path_open rp wp \<Rightarrow> secure_path_open (cwd a) rp wp file mode
      | _ \<Rightarrow> Inr (Open_call file mode))"

definition call_remove_fn :: "remove_fn \<Rightarrow> string \<Rightarrow> exn + remove_call" where
  "call_remove_fn f path =
     (case f of
        Block_remove \<Rightarrow> block_remove path
      | _ \<Rightarrow> Inr (Remove_call path))"

definition call_os_remove :: "ambient \<Rightarrow> string \<Rightarrow> exn + remove_call" where
  "call_os_remove a path = call_remove_fn (os_remove a) path"

definition call_os_unlink :: "ambient \<Rightarrow> string \<Rightarrow> exn + remove_call" where
  "call_os_unlink a path = call_remove_fn (os_unlink a) path"

section \<open>RestrictedNetwork\<close>

text \<open>
  The three \<^verbatim>\<open>original_*\<close> attributes are not set by \<^verbatim>\<open>__init__\<close>; they exist only once
  \<^verbatim>\<open>__enter__\<close> has assigned them (\<open>None\<close>: reading the attribute raises
  \<^verbatim>\<open>AttributeError\<close>).
\<close>

record RestrictedNetwork =
  allowed_hosts :: "string list"
  allowed_ports :: "int list"
  allow_localhost :: bool
  original_socket :: "socket_fn option"
  original_urlopen :: "urlopen_fn option"
  original_http_connect :: "http_init_fn option"

definition RestrictedNetwork_init :: "string list \<Rightarrow> int list \<Rightarrow> bool \<Rightarrow> RestrictedNetwork" where
  "RestrictedNetwork_init hosts ports lh =
     \<lparr>allowed_hosts = hosts, allowed_ports = ports, allow_localhost = lh,
      original_socket = None, original_urlopen = None, original_http_connect = None\<rparr>"

definition is_host_allowed :: "string list \<Rightarrow> bool \<Rightarrow> string \<Rightarrow> bool" where
  "is_host_allowed hosts lh host =
     (if ''*'' \<in> set hosts then True
      else if lh \<and> (host = ''localhost'' \<or> host = ''127.0.0.1'') then True
      else host \<in> set hosts)"

definition is_port_allowed :: "int list \<Rightarrow> int \<Rightarrow> bool" where
  "is_port_allowed ports port =
     (if ports = [] then False else port \<in> set ports)"

datatype net_call =
    Socket_call
  | Urlopen_call string
  | Http_init_call pyval pyval pyval
  | Http_connection "pyval list"


text \<open>
  \<^verbatim>\<open>urlparse(url)\<close> is the standard library's: the call raises, or returns an object of
  which the method reads \<^verbatim>\<open>netloc\<close>, \<^verbatim>\<open>scheme\<close> and \<^verbatim>\<open>port\<close>. Reading \<^verbatim>\<open>port\<close> raises
  \<^verbatim>\<open>ValueError\<close> when the URL's port is not a number or is out of range, and gives \<open>None\<close>
  when the URL names no port. What \<^verbatim>\<open>urlparse\<close> does on the URL is taken as given.
\<close>

datatype port_attr = Port_ValueError | Port_is "int option"

record parsed_url =
  scheme :: string
  netloc :: string
  port :: port_attr




text \<open>
  \<^verbatim>\<open>secure_http_connect(self, _self, host, port)\<close> on Python values. For a host that is not
  a string, \<^verbatim>\<open>host == 'localhost'\<close> and \<^verbatim>\<open>host in self.allowed_hosts\<close> are false; for a port
  that is not a number, \<^verbatim>\<open>port in self.allowed_ports\<close> is false.
\<close>

definition truthy :: "pyval \<Rightarrow> bool" where
  "truthy v = (case v of PyStr t \<Rightarrow> t \<noteq> [] | PyInt i \<Rightarrow> i \<noteq> 0 | PyNone \<Rightarrow> False)"

definition is_host_allowed_value :: "string list \<Rightarrow> bool \<Rightarrow> pyval \<Rightarrow> bool" where
  "is_host_allowed_value hosts lh v =
     (case v of
        PyStr host \<Rightarrow> is_host_allowed hosts lh host
      | _ \<Rightarrow> ''*'' \<in> set hosts)"

definition is_port_allowed_value :: "int list \<Rightarrow> pyval \<Rightarrow> bool" where
  "is_port_allowed_value ports v =
     (case v of
        PyInt p \<Rightarrow> is_port_allowed ports p
      | _ \<Rightarrow> False)"

definition secure_http_connect ::
  "string list \<Rightarrow> int list \<Rightarrow> bool \<Rightarrow> pyval \<Rightarrow> pyval \<Rightarrow> pyval \<Rightarrow> exn + net_call" where
  "secure_http_connect hosts ports lh self' host port_arg =
     (let p = (if truthy port_arg then port_arg else PyInt 80)
      in if \<not> is_host_allowed_value hosts lh host
         then Inl (SecurityError (Http_host_not_allowed host))
         else if \<not> is_port_allowed_value ports p
         then Inl (SecurityError (Http_port_not_allowed p))
         else Inr (Http_init_call self' host p))"

text \<open>
  \<^verbatim>\<open>__enter__\<close> and \<^verbatim>\<open>__exit__\<close> return the exception they raise, if any, with the guard
  and the process state as they are at that moment. \<open>passes e\<close> is the clause
  \<^verbatim>\<open>except (ImportError, AttributeError): pass\<close>; the outer clause of \<^verbatim>\<open>__enter__\<close> is
  \<^verbatim>\<open>except ImportError: pass\<close>. A \<^verbatim>\<open>SecurityError\<close> derives from \<^verbatim>\<open>Exception\<close> only, so
  neither clause catches it.
\<close>

definition is_ImportError :: "exn \<Rightarrow> bool" where
  "is_ImportError e = (case e of ImportError _ \<Rightarrow> True | _ \<Rightarrow> False)"

definition passes :: "exn \<Rightarrow> bool" where
  "passes e = (case e of ImportError _ \<Rightarrow> True | AttributeError _ \<Rightarrow> True | _ \<Rightarrow> False)"

definition patch_http ::
  "RestrictedNetwork \<Rightarrow> ambient \<Rightarrow> exn option \<times> RestrictedNetwork \<times> ambient" where
  "patch_http n a =
     (case import_statement a ''http.client'' of
        Inl e \<Rightarrow> (if passes e then (None, n, a)
                  else if is_ImportError e then (None, n, a)
                  else (Some e, n, a))
      | Inr a0 \<Rightarrow>
          (None,
           n\<lparr>original_http_connect := Some (HTTPConnection_init_attr a0)\<rparr>,
           a0\<lparr>HTTPConnection_init_attr :=
                Secure_http_connect (allowed_hosts n) (allowed_ports n) (allow_localhost n)\<rparr>))"

definition patch_urlopen ::
  "RestrictedNetwork \<Rightarrow> ambient \<Rightarrow> exn option \<times> RestrictedNetwork \<times> ambient" where
  "patch_urlopen n a =
     (case import_statement a ''urllib.request'' of
        Inl e \<Rightarrow> (if passes e then (None, n, a)
                  else if is_ImportError e then (None, n, a)
                  else (Some e, n, a))
      | Inr a0 \<Rightarrow>
          (None,
           n\<lparr>original_urlopen := Some (urllib_request_urlopen a0)\<rparr>,
           a0\<lparr>urllib_request_urlopen :=
                Secure_urlopen (allowed_hosts n) (allowed_ports n) (allow_localhost n)\<rparr>))"

definition RestrictedNetwork_enter ::
  "RestrictedNetwork \<Rightarrow> ambient \<Rightarrow> exn option \<times> RestrictedNetwork \<times> ambient" where
  "RestrictedNetwork_enter n a =
     (case import_statement a ''socket'' of
        Inl e \<Rightarrow> (if is_ImportError e then (None, n, a) else (Some e, n, a))
      | Inr a0 \<Rightarrow>
          (let n1 = n\<lparr>original_socket := Some (socket_socket a0)\<rparr>;
               a1 = a0\<lparr>socket_socket := Secure_socket (allowed_hosts n)\<rparr>
           in case patch_urlopen n1 a1 of
                (Some e, n2, a2) \<Rightarrow> (Some e, n2, a2)
              | (None, n2, a2) \<Rightarrow> patch_http n2 a2))"

definition RestrictedNetwork_exit :: "RestrictedNetwork \<Rightarrow> ambient \<Rightarrow> exn option \<times> ambient" where
  "RestrictedNetwork_exit n a =
     (case import_statement a ''socket'' of
        Inl e \<Rightarrow> (if passes e then (None, a) else (Some e, a))
      | Inr a0 \<Rightarrow>
          (case original_socket n of
             None \<Rightarrow> (None, a0)
           | Some f \<Rightarrow> (None, a0\<lparr>socket_socket := f\<rparr>)))"

section \<open>RestrictedEnvironment\<close>

text \<open>
  \<^verbatim>\<open>original_environ\<close> is assigned by \<^verbatim>\<open>__enter__\<close> only (\<open>None\<close>: the attribute does not
  exist). \<^verbatim>\<open>os.environ.clear()\<close> followed by \<^verbatim>\<open>os.environ.update(m)\<close> leaves exactly \<open>m\<close>.
\<close>

record RestrictedEnvironment =
  allow_access :: bool
  allowed_env_vars :: "string list"
  original_environ :: "(string \<rightharpoonup> string) option"

definition RestrictedEnvironment_init :: "bool \<Rightarrow> RestrictedEnvironment" where
  "RestrictedEnvironment_init acc =
     \<lparr>allow_access = acc,
      allowed_env_vars =
        [''PATH'', ''PYTHONPATH'', ''LANG'', ''PYTEST_CURRENT_TEST'', ''PYTHONIOENCODING''],
      original_environ = None\<rparr>"

definition RestrictedEnvironment_enter ::
  "RestrictedEnvironment \<Rightarrow> ambient \<Rightarrow> RestrictedEnvironment \<times> ambient" where
  "RestrictedEnvironment_enter g a =
     (if \<not> allow_access g
      then (let g1 = g\<lparr>original_environ := Some (environ a)\<rparr>;
                restricted_env = environ a |` set (allowed_env_vars g);
                a1 = a\<lparr>environ := Map.empty\<rparr>
            in (g1, a1\<lparr>environ := environ a1 ++ restricted_env\<rparr>))
      else (g, a))"

definition RestrictedEnvironment_exit ::
  "RestrictedEnvironment \<Rightarrow> ambient \<Rightarrow> exn option \<times> ambient" where
  "RestrictedEnvironment_exit g a =
     (if \<not> allow_access g
      then (let a1 = a\<lparr>environ := Map.empty\<rparr>
            in case original_environ g of
                 None \<Rightarrow> (Some (AttributeError ''original_environ''), a1)
               | Some m \<Rightarrow> (None, a1\<lparr>environ := environ a1 ++ m\<rparr>))
      else (None, a))"

text \<open>What the sandboxed code may do to \<^verbatim>\<open>os.environ\<close>.\<close>

datatype env_op =
    Env_read string
  | Env_write string string
  | Env_delete string

fun env_step :: "ambient \<Rightarrow> env_op \<Rightarrow> ambient" where
  "env_step a (Env_read k) = a"
| "env_step a (Env_write k v) = a\<lparr>environ := (environ a)(k \<mapsto> v)\<rparr>"
| "env_step a (Env_delete k) = a\<lparr>environ := (environ a)(k := None)\<rparr>"

section \<open>The guard stack\<close>

datatype restriction =
    Import_guard RestrictedImportHook
  | Filesystem_guard RestrictedFileSystem
  | Network_guard RestrictedNetwork
  | Environment_guard RestrictedEnvironment

datatype guard_kind = Import_kind | Filesystem_kind | Network_kind | Environment_kind

fun kind_of :: "restriction \<Rightarrow> guard_kind" where
  "kind_of (Import_guard _) = Import_kind"
| "kind_of (Filesystem_guard _) = Filesystem_kind"
| "kind_of (Network_guard _) = Network_kind"
| "kind_of (Environment_guard _) = Environment_kind"

fun enter :: "restriction \<Rightarrow> ambient \<Rightarrow> exn option \<times> restriction \<times> ambient" where
  "enter (Import_guard h) a = (None, Import_guard h, RestrictedImportHook_enter h a)"
| "enter (Filesystem_guard fs) a = (None, Filesystem_guard fs, RestrictedFileSystem_enter fs a)"
| "enter (Network_guard n) a =
     (case RestrictedNetwork_enter n a of (x, n', a') \<Rightarrow> (x, Network_guard n', a'))"
| "enter (Environment_guard g) a =
     (case RestrictedEnvironment_enter g a of (g', a') \<Rightarrow> (None, Environment_guard g', a'))"

fun exit_guard :: "restriction \<Rightarrow> ambient \<Rightarrow> exn option \<times> ambient" where
  "exit_guard (Import_guard h) a = (None, RestrictedImportHook_exit h a)"
| "exit_guard (Filesystem_guard fs) a = (None, RestrictedFileSystem_exit fs a)"
| "exit_guard (Network_guard n) a = RestrictedNetwork_exit n a"
| "exit_guard (Environment_guard g) a = RestrictedEnvironment_exit g a"

text \<open>
  The security profile is a JSON object; every level is read with \<^verbatim>\<open>.get(key, default)\<close>,
  so every key may be absent (\<open>None\<close>).
\<close>

record filesystem_profile =
  fp_read_paths :: "string list option"
  fp_write_paths :: "string list option"
  fp_allow_delete :: "bool option"

record network_profile =
  np_allowed_hosts :: "string list option"
  np_allowed_ports :: "int list option"
  np_allow_localhost :: "bool option"

record environment_profile =
  ep_allow_access :: "bool option"

record security_profile =
  sp_allowed_imports :: "string list option"
  sp_filesystem :: "filesystem_profile option"
  sp_network :: "network_profile option"
  sp_environment :: "environment_profile option"

definition get_or :: "'a option \<Rightarrow> 'a \<Rightarrow> 'a" where
  "get_or v d = (case v of None \<Rightarrow> d | Some x \<Rightarrow> x)"

definition DEFAULT_SECURITY_PROFILE :: security_profile where
  "DEFAULT_SECURITY_PROFILE =
     \<lparr>sp_allowed_imports =
        Some [''os.path'', ''sys'', ''typing'', ''json'', ''datetime'', ''math''],
      sp_filesystem =
        Some \<lparr>fp_read_paths = Some [], fp_write_paths = Some [], fp_allow_delete = Some False\<rparr>,
      sp_network =
        Some \<lparr>np_allowed_hosts = Some [], np_allowed_ports = Some [],
              np_allow_localhost = Some False\<rparr>,
      sp_environment = Some \<lparr>ep_allow_access = Some False\<rparr>\<rparr>"

definition apply_security_restrictions :: "security_profile \<Rightarrow> ambient \<Rightarrow> restriction list" where
  "apply_security_restrictions security_profile a =
     (let import_hook =
            RestrictedImportHook_init
              (get_or (sp_allowed_imports security_profile)
                 (the (sp_allowed_imports DEFAULT_SECURITY_PROFILE))) a;
          fs_profile =
            get_or (sp_filesystem security_profile)
              (the (sp_filesystem DEFAULT_SECURITY_PROFILE));
          fs_restrictor =
            RestrictedFileSystem_init
              (get_or (fp_read_paths fs_profile) [])
              (get_or (fp_write_paths fs_profile) [])
              (get_or (fp_allow_delete fs_profile) False) a;
          net_profile =
            get_or (sp_network security_profile)
              (the (sp_network DEFAULT_SECURITY_PROFILE));
          network_restrictor =
            RestrictedNetwork_init
              (get_or (np_allowed_hosts net_profile) [])
              (get_or (np_allowed_ports net_profile) [])
              (get_or (np_allow_localhost net_profile) False);
          env_profile =
            get_or (sp_environment security_profile)
              (the (sp_environment DEFAULT_SECURITY_PROFILE));
          env_restrictor =
            RestrictedEnvironment_init (get_or (ep_allow_access env_profile) False)
      in [Import_guard import_hook, Filesystem_guard fs_restrictor,
          Network_guard network_restrictor, Environment_guard env_restrictor])"

text \<open>
  \<^verbatim>\<open>for restriction in restrictions: restriction.__enter__()\<close>: the loop stops at the first
  exception. The third component lists the guards whose \<^verbatim>\<open>__enter__\<close> returned.
\<close>

fun enter_all ::
  "restriction list \<Rightarrow> ambient \<Rightarrow> exn option \<times> restriction list \<times> guard_kind list \<times> ambient" where
  "enter_all [] a = (None, [], [], a)"
| "enter_all (r # rs) a =
     (case enter r a of
        (Some e, r', a') \<Rightarrow> (Some e, r' # rs, [], a')
      | (None, r', a') \<Rightarrow>
          (case enter_all rs a' of
             (x, rs', ks, a'') \<Rightarrow> (x, r' # rs', kind_of r # ks, a'')))"

text \<open>
  \<^verbatim>\<open>for restriction in reversed(restrictions): restriction.__exit__(None, None, None)\<close>,
  applied to the reversed list: the loop stops at the first exception. The second
  component lists the guards whose \<^verbatim>\<open>__exit__\<close> was called.
\<close>

fun exit_all :: "restriction list \<Rightarrow> ambient \<Rightarrow> exn option \<times> guard_kind list \<times> ambient" where
  "exit_all [] a = (None, [], a)"
| "exit_all (r # rs) a =
     (case exit_guard r a of
        (Some e, a') \<Rightarrow> (Some e, [kind_of r], a')
      | (None, a') \<Rightarrow>
          (case exit_all rs a' of
             (x, ks, a'') \<Rightarrow> (x, kind_of r # ks, a'')))"

section \<open>run_sandboxed_script\<close>

text \<open>
  The script file: whether \<^verbatim>\<open>os.path.exists\<close> finds it, and what executing its text does
  to the process state (the exception it ends with, if any).
\<close>

record script_file =
  script_path :: string
  script_exists :: bool
  script_exec :: "ambient \<Rightarrow> exn option \<times> ambient"

datatype outcome = Returned | Raised exn

record run_result =
  result :: outcome
  final_state :: ambient
  activated :: "guard_kind list"
  exit_calls :: "guard_kind list"
  script_opened :: bool
  script_executed :: bool

definition run_sandboxed_script :: "script_file \<Rightarrow> security_profile \<Rightarrow> ambient \<Rightarrow> run_result" where
  "run_sandboxed_script s security_profile a =
     (if \<not> script_exists s
      then \<lparr>result = Raised (SandboxException (script_path s)), final_state = a,
            activated = [], exit_calls = [], script_opened = False, script_executed = False\<rparr>
      else
        let restrictions = apply_security_restrictions security_profile a
        in case enter_all restrictions a of
             (entered, restrictions1, acts, a1) \<Rightarrow>
               (let body =
                      (case entered of
                         Some e \<Rightarrow> (Some e, a1, False, False)
                       | None \<Rightarrow>
                           (case call_open a1 (script_path s) ''r'' of
                              Inl e \<Rightarrow> (Some e, a1, False, False)
                            | Inr _ \<Rightarrow>
                                (case script_exec s a1 of
                                   (x, a2) \<Rightarrow> (x, a2, True, True))))
                in case body of
                     (raised, a2, opened, executed) \<Rightarrow>
                       (case exit_all (rev restrictions1) a2 of
                          (exit_raised, exits, a3) \<Rightarrow>
                            \<lparr>result =
                               (case exit_raised of
                                  Some e \<Rightarrow> Raised e
                                | None \<Rightarrow>
                                    (case raised of Some e \<Rightarrow> Raised e | None \<Rightarrow> Returned)),
                             final_state = a3,
                             activated = acts,
                             exit_calls = exits,
                             script_opened = opened,
                             script_executed = executed\<rparr>)))"

section \<open>Calls made by sandboxed code\<close>



text \<open>
  \<^verbatim>\<open>http.client.HTTPConnection(*args)\<close> with positional arguments. \<^verbatim>\<open>__init__\<close> is looked
  up on the class. A function found there is bound to the new instance; the guard stores
  a method that is already bound to the guard, which is called as it is, so the caller's
  arguments arrive as \<^verbatim>\<open>_self, host, port\<close> and a call with fewer than two arguments
  raises \<^verbatim>\<open>TypeError\<close>.
\<close>

definition call_HTTPConnection :: "ambient \<Rightarrow> pyval list \<Rightarrow> exn + net_call" where
  "call_HTTPConnection a args =
     (case HTTPConnection_init_attr a of
        HTTPConnection_init \<Rightarrow> Inr (Http_connection args)
      | Secure_http_connect hosts ports lh \<Rightarrow>
          (case args of
             self' # host # rest \<Rightarrow>
               secure_http_connect hosts ports lh self' host
                 (case rest of [] \<Rightarrow> PyNone | p # _ \<Rightarrow> p)
           | _ \<Rightarrow> Inl (TypeError ''host'')))"

text \<open>
  A process in which nothing has been patched yet and in which the modules that the
  wrapper's methods import have been imported before.
\<close>

definition fresh_process :: "(string \<rightharpoonup> string) \<Rightarrow> string \<Rightarrow> ambient" where
  "fresh_process env working_dir =
     \<lparr>environ = env, cwd = working_dir,
      builtins_import = Builtin_import,
      builtins_open = Builtin_open,
      Path_open = Pathlib_open,
      os_remove = Os_remove,
      os_unlink = Os_unlink,
      socket_socket = Socket_class,
      urllib_request_urlopen = Urllib_urlopen,
      HTTPConnection_init_attr = HTTPConnection_init,
      sys_modules = {''socket'', ''urllib.request'', ''urllib.parse'', ''http.client''},
      first_import = (\<lambda>hook sock name. None)\<rparr>"

section \<open>What a profile configures\<close>

text \<open>
  The values \<^verbatim>\<open>apply_security_restrictions\<close> reads from the profile, named so that the
  theorems can mention them, and the state in which the activation loop of
  \<^verbatim>\<open>run_sandboxed_script\<close> stops: the import hook and the filesystem guard are active.
\<close>

definition profile_allowed_imports :: "security_profile \<Rightarrow> string list" where
  "profile_allowed_imports p =
     get_or (sp_allowed_imports p) (the (sp_allowed_imports DEFAULT_SECURITY_PROFILE))"

definition profile_allow_access :: "security_profile \<Rightarrow> bool" where
  "profile_allow_access p =
     get_or (ep_allow_access
        (get_or (sp_environment p) (the (sp_environment DEFAULT_SECURITY_PROFILE)))) False"

definition profile_filesystem :: "security_profile \<Rightarrow> ambient \<Rightarrow> RestrictedFileSystem" where
  "profile_filesystem p a =
     (let fs_profile = get_or (sp_filesystem p) (the (sp_filesystem DEFAULT_SECURITY_PROFILE))
      in RestrictedFileSystem_init
           (get_or (fp_read_paths fs_profile) [])
           (get_or (fp_write_paths fs_profile) [])
           (get_or (fp_allow_delete fs_profile) False) a)"

definition stalled_state :: "security_profile \<Rightarrow> ambient \<Rightarrow> ambient" where
  "stalled_state p a =
     RestrictedFileSystem_enter (profile_filesystem p a)
       (RestrictedImportHook_enter (RestrictedImportHook_init (profile_allowed_imports p) a) a)"

text \<open>The \<^verbatim>\<open>SecurityError\<close> that \<^verbatim>\<open>secure_import\<close> raises for the module \<^verbatim>\<open>socket\<close>.\<close>

definition socket_denial :: "string list \<Rightarrow> exn" where
  "socket_denial allowed =
     SecurityError (if ''socket'' \<in> set allowed then Import_dangerous ''socket''
                    else Import_restricted ''socket'')"

section \<open>Theorems\<close>

lemma startswith_self: "startswith s s"
  by (simp add: startswith_def)

text \<open>
  C4. For every module name of the fixed list \<open>dangerous_modules\<close> the guarded import
  raises a \<^verbatim>\<open>SecurityError\<close>, whatever the list of allowed imports is; when the profile
  lists the name itself, the error is the one of the dangerous-module check.
\<close>

theorem dangerous_import_always_denied:
  "name \<in> set dangerous_modules \<Longrightarrow>
     (\<exists>v. secure_import allowed name = Inl (SecurityError v)) \<and>
     (name \<in> set allowed \<longrightarrow>
        secure_import allowed name = Inl (SecurityError (Import_dangerous name)))"
proof -
  assume d: "name \<in> set dangerous_modules"
  have "list_ex (\<lambda>dangerous. startswith name dangerous) dangerous_modules"
    unfolding list_ex_iff using d startswith_self by blast
  then show ?thesis
    by (simp add: secure_import_def Let_def)
qed

theorem dangerous_import_always_denied_witness:
  "''subprocess'' \<in> set dangerous_modules \<and>
   ''subprocess'' \<in> set [''subprocess'', ''json''] \<and>
   secure_import [''subprocess'', ''json''] ''subprocess''
     = Inl (SecurityError (Import_dangerous ''subprocess''))"
proof -
  have d: "''subprocess'' \<in> set dangerous_modules"
    by (simp add: dangerous_modules_def)
  show ?thesis
    using d dangerous_import_always_denied [OF d, of "[''subprocess'', ''json'']"]
    by simp
qed

subsection \<open>Deletion\<close>

text \<open>
  C2, as stated, fails: with \<^verbatim>\<open>allow_delete\<close> true the guard leaves \<^verbatim>\<open>os.remove\<close> alone, so
  a delete of a path outside \<^verbatim>\<open>write_paths\<close> reaches the original function although the
  write-path check on that path fails.
\<close>

theorem delete_ignores_write_paths_counterexample:
  "call_os_remove
      (RestrictedFileSystem_enter
         (RestrictedFileSystem_init [] [] True (fresh_process Map.empty ''/''))
         (fresh_process Map.empty ''/''))
      ''/etc/passwd'' = Inr (Remove_call ''/etc/passwd'') \<and>
   \<not> is_path_allowed ''/''
       (read_paths (RestrictedFileSystem_init [] [] True (fresh_process Map.empty ''/'')))
       (write_paths (RestrictedFileSystem_init [] [] True (fresh_process Map.empty ''/'')))
       ''/etc/passwd'' True"
  by (simp add: call_os_remove_def call_remove_fn_def RestrictedFileSystem_enter_def
        RestrictedFileSystem_init_def fresh_process_def is_path_allowed_def Let_def)

text \<open>
  C2, amended. While the filesystem guard is active (entered in a process whose
  \<^verbatim>\<open>os.remove\<close> and \<^verbatim>\<open>os.unlink\<close> were not patched before), a delete raises a
  \<^verbatim>\<open>SecurityError\<close> exactly when \<^verbatim>\<open>allow_delete\<close> is false; the path lists are not consulted,
  and with \<^verbatim>\<open>allow_delete\<close> true every delete is handed to the original function.
\<close>

theorem delete_gated_by_allow_delete:
  assumes "os_remove a \<noteq> Block_remove" and "os_unlink a \<noteq> Block_remove"
  shows "call_os_remove (RestrictedFileSystem_enter fs a) path =
           (if allow_delete fs then Inr (Remove_call path)
            else Inl (SecurityError Deletion_blocked)) \<and>
         call_os_unlink (RestrictedFileSystem_enter fs a) path =
           (if allow_delete fs then Inr (Remove_call path)
            else Inl (SecurityError Deletion_blocked))"
  using assms
  by (cases "os_remove a"; cases "os_unlink a")
     (simp_all add: call_os_remove_def call_os_unlink_def call_remove_fn_def
        RestrictedFileSystem_enter_def block_remove_def Let_def)

theorem delete_gated_by_allow_delete_witness:
  "os_remove (fresh_process Map.empty ''/'') \<noteq> Block_remove \<and>
   os_unlink (fresh_process Map.empty ''/'') \<noteq> Block_remove \<and>
   is_path_allowed ''/'' [] [''/tmp/out''] ''/tmp/out/a.txt'' True \<and>
   call_os_remove
     (RestrictedFileSystem_enter
        \<lparr>read_paths = [], write_paths = [''/tmp/out''], allow_delete = False,
         original_open = Builtin_open\<rparr>
        (fresh_process Map.empty ''/''))
     ''/tmp/out/a.txt'' = Inl (SecurityError Deletion_blocked) \<and>
   call_os_unlink
     (RestrictedFileSystem_enter
        \<lparr>read_paths = [], write_paths = [''/tmp/out''], allow_delete = True,
         original_open = Builtin_open\<rparr>
        (fresh_process Map.empty ''/''))
     ''/tmp/out/a.txt'' = Inr (Remove_call ''/tmp/out/a.txt'')"
proof -
  have r: "os_remove (fresh_process Map.empty ''/'') \<noteq> Block_remove"
    by (simp add: fresh_process_def)
  have u: "os_unlink (fresh_process Map.empty ''/'') \<noteq> Block_remove"
    by (simp add: fresh_process_def)
  have p: "is_path_allowed ''/'' [] [''/tmp/out''] ''/tmp/out/a.txt'' True"
    by (simp add: is_path_allowed_def abspath_def normpath_def startswith_def Let_def)
  show ?thesis
    using r u p
      delete_gated_by_allow_delete [OF r u,
        of "\<lparr>read_paths = [], write_paths = [''/tmp/out''], allow_delete = False,
             original_open = Builtin_open\<rparr>" "''/tmp/out/a.txt''"]
      delete_gated_by_allow_delete [OF r u,
        of "\<lparr>read_paths = [], write_paths = [''/tmp/out''], allow_delete = True,
             original_open = Builtin_open\<rparr>" "''/tmp/out/a.txt''"]
    by simp
qed

subsection \<open>The path check\<close>

text \<open>
  C3. The check compares strings, not path components: for the allowed entry \<^verbatim>\<open>/foo\<close>
  (with or without a trailing separator) the path \<^verbatim>\<open>/foobar\<close>, which is not below it,
  passes the read check and the write check, and the guarded open lets it through.
\<close>

theorem sibling_prefix_passes_path_check:
  "abspath wd ''/foo'' = ''/foo'' \<and> abspath wd ''/foobar'' = ''/foobar'' \<and>
   is_path_allowed wd (map (abspath wd) [''/foo'']) [] ''/foobar'' False \<and>
   is_path_allowed wd [] (map (abspath wd) [''/foo/'']) ''/foobar'' True \<and>
   secure_open wd (map (abspath wd) [''/foo'']) [] ''/foobar'' ''r''
     = Inr (Open_call ''/foobar'' ''r'')"
  by (simp add: is_path_allowed_def secure_open_def is_write_mode_def abspath_def normpath_def
        startswith_def Let_def)

subsection \<open>Open modes\<close>

lemma is_write_mode_iff:
  "is_write_mode mode \<longleftrightarrow>
     CHR ''w'' \<in> set mode \<or> CHR ''a'' \<in> set mode \<or> CHR ''x'' \<in> set mode \<or> CHR ''+'' \<in> set mode"
  by (simp add: is_write_mode_def)

lemma starts_with_any_iff:
  "starts_with_any filepath paths \<longleftrightarrow> (\<exists>allowed_path \<in> set paths. startswith filepath allowed_path)"
  by (induction paths) auto

text \<open>
  C10. A mode is a write mode iff it contains one of the characters \<^verbatim>\<open>w\<close>, \<^verbatim>\<open>a\<close>,
  \<^verbatim>\<open>x\<close>, \<^verbatim>\<open>+\<close>. A write-mode open is let through if the canonical path starts with an entry
  of \<^verbatim>\<open>write_paths\<close> and raises a \<^verbatim>\<open>SecurityError\<close> otherwise; an open in any other mode is
  let through if the canonical path starts with an entry of \<^verbatim>\<open>read_paths\<close> and raises a
  \<^verbatim>\<open>SecurityError\<close> otherwise. So the outcome of a write-mode open does not depend on
  \<^verbatim>\<open>read_paths\<close>, and on a path that the write list covers and the read list does not,
  mode \<^verbatim>\<open>r+\<close> is let through and mode \<^verbatim>\<open>r\<close> raises a \<^verbatim>\<open>SecurityError\<close>.
\<close>

theorem write_mode_checked_against_write_paths_only:
  "(is_write_mode mode \<longleftrightarrow>
      CHR ''w'' \<in> set mode \<or> CHR ''a'' \<in> set mode \<or> CHR ''x'' \<in> set mode \<or>
      CHR ''+'' \<in> set mode) \<and>
   (is_write_mode mode \<longrightarrow>
      secure_open wd rpaths wpaths file mode =
        (if \<exists>allowed_path \<in> set wpaths. startswith (abspath wd file) allowed_path
         then Inr (Open_call file mode)
         else Inl (SecurityError (File_access file True)))) \<and>
   (\<not> is_write_mode mode \<longrightarrow>
      secure_open wd rpaths wpaths file mode =
        (if \<exists>allowed_path \<in> set rpaths. startswith (abspath wd file) allowed_path
         then Inr (Open_call file mode)
         else Inl (SecurityError (File_access file False)))) \<and>
   (is_write_mode mode \<longrightarrow>
      secure_open wd rpaths wpaths file mode = secure_open wd rpaths' wpaths file mode) \<and>
   (starts_with_any (abspath wd file) wpaths \<and> \<not> starts_with_any (abspath wd file) rpaths \<longrightarrow>
      secure_open wd rpaths wpaths file ''r+'' = Inr (Open_call file ''r+'') \<and>
      secure_open wd rpaths wpaths file ''r'' = Inl (SecurityError (File_access file False)))"
proof -
  have m: "is_write_mode mode \<longleftrightarrow>
      CHR ''w'' \<in> set mode \<or> CHR ''a'' \<in> set mode \<or> CHR ''x'' \<in> set mode \<or>
      CHR ''+'' \<in> set mode"
    by (rule is_write_mode_iff)
  have w: "is_write_mode mode \<longrightarrow>
      secure_open wd rpaths wpaths file mode =
        (if \<exists>allowed_path \<in> set wpaths. startswith (abspath wd file) allowed_path
         then Inr (Open_call file mode)
         else Inl (SecurityError (File_access file True)))"
    by (simp add: secure_open_def is_path_allowed_def Let_def starts_with_any_iff)
  have r: "\<not> is_write_mode mode \<longrightarrow>
      secure_open wd rpaths wpaths file mode =
        (if \<exists>allowed_path \<in> set rpaths. startswith (abspath wd file) allowed_path
         then Inr (Open_call file mode)
         else Inl (SecurityError (File_access file False)))"
    by (simp add: secure_open_def is_path_allowed_def Let_def starts_with_any_iff)
  have i: "is_write_mode mode \<longrightarrow>
      secure_open wd rpaths wpaths file mode = secure_open wd rpaths' wpaths file mode"
    by (simp add: secure_open_def is_path_allowed_def Let_def)
  have c: "starts_with_any (abspath wd file) wpaths \<and>
           \<not> starts_with_any (abspath wd file) rpaths \<longrightarrow>
      secure_open wd rpaths wpaths file ''r+'' = Inr (Open_call file ''r+'') \<and>
      secure_open wd rpaths wpaths file ''r'' = Inl (SecurityError (File_access file False))"
    by (simp add: secure_open_def is_path_allowed_def is_write_mode_def Let_def)
  from m w r i c show ?thesis
    by blast
qed

theorem write_mode_checked_against_write_paths_only_witness:
  "is_write_mode ''r+'' \<and>
   starts_with_any (abspath ''/'' ''/out/log.txt'') [''/out''] \<and>
   \<not> starts_with_any (abspath ''/'' ''/out/log.txt'') [] \<and>
   secure_open ''/'' [] [''/out''] ''/out/log.txt'' ''r+'' = Inr (Open_call ''/out/log.txt'' ''r+'') \<and>
   secure_open ''/'' [] [''/out''] ''/out/log.txt'' ''r''
     = Inl (SecurityError (File_access ''/out/log.txt'' False)) \<and>
   secure_open ''/'' [] [''/out''] ''/out/log.txt'' ''r+''
     = secure_open ''/'' [''/srv''] [''/out''] ''/out/log.txt'' ''r+'' \<and>
   is_write_mode ''w'' \<and>
   secure_open ''/'' [''/etc''] [''/out''] ''/etc/passwd'' ''w''
     = Inl (SecurityError (File_access ''/etc/passwd'' True))"
proof -
  have w: "is_write_mode ''r+''"
    by (simp add: is_write_mode_def)
  have c: "starts_with_any (abspath ''/'' ''/out/log.txt'') [''/out''] \<and>
           \<not> starts_with_any (abspath ''/'' ''/out/log.txt'') []"
    by (simp add: abspath_def normpath_def startswith_def Let_def)
  have first: "secure_open ''/'' [] [''/out''] ''/out/log.txt'' ''r+''
                 = Inr (Open_call ''/out/log.txt'' ''r+'') \<and>
     secure_open ''/'' [] [''/out''] ''/out/log.txt'' ''r''
       = Inl (SecurityError (File_access ''/out/log.txt'' False)) \<and>
     secure_open ''/'' [] [''/out''] ''/out/log.txt'' ''r+''
       = secure_open ''/'' [''/srv''] [''/out''] ''/out/log.txt'' ''r+''"
    using w c
      write_mode_checked_against_write_paths_only
        [of "''r+''" "''/''" "[]" "[''/out'']" "''/out/log.txt''" "[''/srv'']"]
    by blast
  have v: "is_write_mode ''w''"
    by (simp add: is_write_mode_def)
  have n: "\<not> (\<exists>allowed_path \<in> set [''/out'']. startswith (abspath ''/'' ''/etc/passwd'') allowed_path)"
    by (simp add: abspath_def normpath_def startswith_def Let_def)
  from write_mode_checked_against_write_paths_only
        [of "''w''" "''/''" "[''/etc'']" "[''/out'']" "''/etc/passwd''" "[]"]
  have "is_write_mode ''w'' \<longrightarrow>
      secure_open ''/'' [''/etc''] [''/out''] ''/etc/passwd'' ''w'' =
        (if \<exists>allowed_path \<in> set [''/out'']. startswith (abspath ''/'' ''/etc/passwd'') allowed_path
         then Inr (Open_call ''/etc/passwd'' ''w'')
         else Inl (SecurityError (File_access ''/etc/passwd'' True)))"
    by (elim conjE)
  with v n have second: "secure_open ''/'' [''/etc''] [''/out''] ''/etc/passwd'' ''w''
     = Inl (SecurityError (File_access ''/etc/passwd'' True))"
    by presburger
  from w c first v second show ?thesis
    by blast
qed

subsection \<open>Hosts\<close>

text \<open>
  C6, as stated, fails at the host \<^verbatim>\<open>::1\<close>: with \<^verbatim>\<open>allow_localhost\<close> true and no allowed
  hosts the check returns false.
\<close>

theorem ipv6_loopback_counterexample:
  "\<not> (is_host_allowed [] True ''::1'' \<longleftrightarrow>
        (''*'' \<in> set ([]::string list) \<or> ''::1'' \<in> set ([]::string list) \<or>
         (True \<and> ''::1'' \<in> {''localhost'', ''127.0.0.1'', ''::1''})))"
  by (simp add: is_host_allowed_def)

text \<open>
  C6, amended. \<open>is_host_allowed\<close> is true iff the wildcard entry is in the allowed hosts,
  or the host is, or \<^verbatim>\<open>allow_localhost\<close> is true and the host is \<^verbatim>\<open>localhost\<close> or
  \<^verbatim>\<open>127.0.0.1\<close>.
\<close>

theorem is_host_allowed_iff:
  "is_host_allowed hosts lh host \<longleftrightarrow>
     ''*'' \<in> set hosts \<or> host \<in> set hosts \<or>
     (lh \<and> (host = ''localhost'' \<or> host = ''127.0.0.1''))"
  by (auto simp: is_host_allowed_def)

subsection \<open>The environment\<close>

text \<open>
  C7. With \<^verbatim>\<open>allow_access\<close> false, whatever reads, writes and deletions the sandboxed code
  performs on \<^verbatim>\<open>os.environ\<close> between \<^verbatim>\<open>__enter__\<close> and \<^verbatim>\<open>__exit__\<close>, \<^verbatim>\<open>__exit__\<close> returns
  normally and leaves exactly the mapping that existed before \<^verbatim>\<open>__enter__\<close>.
\<close>

theorem environment_restored_exactly:
  "\<not> allow_access g \<Longrightarrow>
   (case RestrictedEnvironment_enter g a of
      (g', a') \<Rightarrow>
        (case RestrictedEnvironment_exit g' (foldl env_step a' ops) of
           (x, a'') \<Rightarrow> x = None \<and> environ a'' = environ a))"
  by (simp add: RestrictedEnvironment_enter_def RestrictedEnvironment_exit_def Let_def)

theorem environment_restored_exactly_witness:
  "\<not> allow_access (RestrictedEnvironment_init False) \<and>
   (case RestrictedEnvironment_enter (RestrictedEnvironment_init False)
           (fresh_process [''HOME'' \<mapsto> ''/root'', ''PATH'' \<mapsto> ''/bin''] ''/'') of
      (g', a') \<Rightarrow>
        (case RestrictedEnvironment_exit g'
                (foldl env_step a'
                   [Env_write ''SECRET'' ''1'', Env_delete ''PATH'', Env_read ''HOME'']) of
           (x, a'') \<Rightarrow>
             x = None \<and>
             environ a'' = [''HOME'' \<mapsto> ''/root'', ''PATH'' \<mapsto> ''/bin'']))"
proof -
  have h: "\<not> allow_access (RestrictedEnvironment_init False)"
    by (simp add: RestrictedEnvironment_init_def)
  have e: "environ (fresh_process [''HOME'' \<mapsto> ''/root'', ''PATH'' \<mapsto> ''/bin''] ''/'')
             = [''HOME'' \<mapsto> ''/root'', ''PATH'' \<mapsto> ''/bin'']"
    by (simp add: fresh_process_def)
  show ?thesis
    using h environment_restored_exactly [OF h,
        of "fresh_process [''HOME'' \<mapsto> ''/root'', ''PATH'' \<mapsto> ''/bin''] ''/''"
           "[Env_write ''SECRET'' ''1'', Env_delete ''PATH'', Env_read ''HOME'']"]
    unfolding e by blast
qed

subsection \<open>The network guard\<close>

lemma secure_import_socket:
  "secure_import allowed ''socket'' = Inl (socket_denial allowed)"
  by (simp add: secure_import_def Let_def dangerous_modules_def startswith_def socket_denial_def)



text \<open>
  When \<^verbatim>\<open>urllib.request\<close> has not been imported before and its code raises under the
  replaced \<^verbatim>\<open>socket.socket\<close> an exception that is neither an \<^verbatim>\<open>ImportError\<close> nor an
  \<^verbatim>\<open>AttributeError\<close>, \<^verbatim>\<open>__enter__\<close> raises it and leaves \<^verbatim>\<open>socket.socket\<close> replaced.
\<close>

lemma network_enter_library_raises:
  assumes "builtins_import a = Builtin_import"
    and "''socket'' \<in> sys_modules a"
    and "''urllib.request'' \<notin> sys_modules a"
    and "first_import a Builtin_import (Secure_socket (allowed_hosts n)) ''urllib.request''
           = Some e"
    and "\<not> passes e"
  shows "RestrictedNetwork_enter n a =
     (Some e, n\<lparr>original_socket := Some (socket_socket a)\<rparr>,
      a\<lparr>socket_socket := Secure_socket (allowed_hosts n)\<rparr>)"
proof -
  have "\<not> is_ImportError e"
    using assms(5) by (cases e) (simp_all add: passes_def is_ImportError_def)
  then show ?thesis
    using assms
    by (simp add: RestrictedNetwork_enter_def patch_urlopen_def import_statement_def
          builtin_import_def Let_def)
qed







text \<open>
  The constructor \<^verbatim>\<open>HTTPConnection(host, port)\<close> under the guard: the guard's method takes
  the caller's host for \<^verbatim>\<open>_self\<close> and the caller's port for \<^verbatim>\<open>host\<close>. With the wildcard host
  and port 80 allowed, \<^verbatim>\<open>HTTPConnection('evil.com', 9999)\<close> is handed to the saved
  \<^verbatim>\<open>__init__\<close> although port 9999 does not pass the port check; without the wildcard the
  call is refused for the host \<^verbatim>\<open>9999\<close>.
\<close>

lemma http_connection_arguments_shift:
  "call_HTTPConnection
     (a\<lparr>HTTPConnection_init_attr := Secure_http_connect [''*''] [80] False\<rparr>)
     [PyStr ''evil.com'', PyInt 9999]
     = Inr (Http_init_call (PyStr ''evil.com'') (PyInt 9999) (PyInt 80)) \<and>
   \<not> is_port_allowed [80] 9999 \<and>
   call_HTTPConnection
     (a\<lparr>HTTPConnection_init_attr := Secure_http_connect [''evil.com''] [9999] False\<rparr>)
     [PyStr ''evil.com'', PyInt 9999]
     = Inl (SecurityError (Http_host_not_allowed (PyInt 9999)))"
  by (simp add: call_HTTPConnection_def secure_http_connect_def truthy_def
        is_host_allowed_value_def is_port_allowed_value_def is_host_allowed_def
        is_port_allowed_def)

subsection \<open>The guard stack in \<^verbatim>\<open>run_sandboxed_script\<close>\<close>

text \<open>
  The import hook is entered first, so every later \<^verbatim>\<open>import\<close> statement of the wrapper
  goes through \<^verbatim>\<open>secure_import\<close>. \<^verbatim>\<open>RestrictedNetwork.__enter__\<close> and \<^verbatim>\<open>__exit__\<close> begin with
  \<^verbatim>\<open>import socket\<close>, which \<^verbatim>\<open>secure_import\<close> refuses for every list of allowed imports; the
  \<^verbatim>\<open>SecurityError\<close> is not caught by their \<^verbatim>\<open>except\<close> clauses.
\<close>

lemma import_socket_hooked:
  "builtins_import a = Secure_import allowed \<Longrightarrow>
     import_statement a ''socket'' = Inl (socket_denial allowed)"
  by (simp add: import_statement_def secure_import_socket socket_denial_def)

lemma net_enter_hooked:
  "builtins_import a = Secure_import allowed \<Longrightarrow>
     RestrictedNetwork_enter n a = (Some (socket_denial allowed), n, a)"
  by (simp add: RestrictedNetwork_enter_def import_socket_hooked is_ImportError_def socket_denial_def)

lemma net_exit_hooked:
  "builtins_import a = Secure_import allowed \<Longrightarrow>
     RestrictedNetwork_exit n a = (Some (socket_denial allowed), a)"
  by (simp add: RestrictedNetwork_exit_def import_socket_hooked passes_def socket_denial_def)
lemma enter_all_stack:
  "enter_all [Import_guard h, Filesystem_guard fs, Network_guard n, Environment_guard g] a =
     (Some (socket_denial (allowed_imports h)),
      [Import_guard h, Filesystem_guard fs, Network_guard n, Environment_guard g],
      [Import_kind, Filesystem_kind],
      RestrictedFileSystem_enter fs (RestrictedImportHook_enter h a))"
proof -
  have b: "builtins_import (RestrictedFileSystem_enter fs (RestrictedImportHook_enter h a))
             = Secure_import (allowed_imports h)"
    by (simp add: RestrictedFileSystem_enter_def RestrictedImportHook_enter_def Let_def)
  show ?thesis
    by (simp add: net_enter_hooked [OF b])
qed

lemma exit_all_stack_denied:
  assumes "builtins_import a = Secure_import allowed" "\<not> allow_access g" "original_environ g = None"
  shows "exit_all (rev [Import_guard h, Filesystem_guard fs, Network_guard n, Environment_guard g]) a =
     (Some (AttributeError ''original_environ''), [Environment_kind], a\<lparr>environ := Map.empty\<rparr>)"
  using assms by (simp add: RestrictedEnvironment_exit_def)

lemma exit_all_stack_access:
  assumes "builtins_import a = Secure_import allowed" "allow_access g"
  shows "exit_all (rev [Import_guard h, Filesystem_guard fs, Network_guard n, Environment_guard g]) a =
     (Some (socket_denial allowed), [Environment_kind, Network_kind], a)"
  using assms by (simp add: RestrictedEnvironment_exit_def net_exit_hooked)

lemma apply_shape:
  "\<exists>n. apply_security_restrictions p a =
     [Import_guard (RestrictedImportHook_init (profile_allowed_imports p) a),
      Filesystem_guard (profile_filesystem p a),
      Network_guard n,
      Environment_guard (RestrictedEnvironment_init (profile_allow_access p))]"
  by (simp add: apply_security_restrictions_def Let_def profile_allowed_imports_def
        profile_allow_access_def profile_filesystem_def)

lemma stalled_import:
  "builtins_import (stalled_state p a) = Secure_import (profile_allowed_imports p)"
  by (simp add: stalled_state_def RestrictedFileSystem_enter_def RestrictedImportHook_enter_def
        RestrictedImportHook_init_def Let_def)

lemma run_existing:
  assumes "script_exists s"
  shows "run_sandboxed_script s p a =
    \<lparr>result = Raised (if profile_allow_access p then socket_denial (profile_allowed_imports p)
                      else AttributeError ''original_environ''),
     final_state = (if profile_allow_access p then stalled_state p a
                    else (stalled_state p a)\<lparr>environ := Map.empty\<rparr>),
     activated = [Import_kind, Filesystem_kind],
     exit_calls = (if profile_allow_access p then [Environment_kind, Network_kind]
                   else [Environment_kind]),
     script_opened = False, script_executed = False\<rparr>"
proof -
  obtain n where ap: "apply_security_restrictions p a =
     [Import_guard (RestrictedImportHook_init (profile_allowed_imports p) a),
      Filesystem_guard (profile_filesystem p a),
      Network_guard n,
      Environment_guard (RestrictedEnvironment_init (profile_allow_access p))]"
    using apply_shape by blast
  have ai: "allowed_imports (RestrictedImportHook_init (profile_allowed_imports p) a)
              = profile_allowed_imports p"
    by (simp add: RestrictedImportHook_init_def)
  show ?thesis
  proof (cases "profile_allow_access p")
    case True
    have g: "allow_access (RestrictedEnvironment_init (profile_allow_access p))"
      using True by (simp add: RestrictedEnvironment_init_def)
    show ?thesis
      unfolding run_sandboxed_script_def ap Let_def enter_all_stack
      using assms True exit_all_stack_access [OF stalled_import g]
      by (simp add: ai stalled_state_def)
  next
    case False
    have g: "\<not> allow_access (RestrictedEnvironment_init (profile_allow_access p))"
      using False by (simp add: RestrictedEnvironment_init_def)
    have o: "original_environ (RestrictedEnvironment_init (profile_allow_access p)) = None"
      by (simp add: RestrictedEnvironment_init_def)
    show ?thesis
      unfolding run_sandboxed_script_def ap Let_def enter_all_stack
      using assms False exit_all_stack_denied [OF stalled_import g o]
      by (simp add: ai stalled_state_def)
  qed
qed

text \<open>
  C1. Activation followed by deactivation does not restore the interception points.
  In \<^verbatim>\<open>run_sandboxed_script\<close>, started in an unpatched process with an existing script,
  \<^verbatim>\<open>builtins.__import__\<close>, \<^verbatim>\<open>builtins.open\<close> and \<^verbatim>\<open>Path.open\<close> are still the guards' methods
  when the function is left. Taken alone, the filesystem guard's \<^verbatim>\<open>__exit__\<close> restores
  \<^verbatim>\<open>builtins.open\<close> only (\<^verbatim>\<open>Path.open\<close>, and \<^verbatim>\<open>os.remove\<close> and \<^verbatim>\<open>os.unlink\<close> when they were
  patched, keep the guard's methods), and the network guard's \<^verbatim>\<open>__exit__\<close>, in a process
  without the import hook, restores \<^verbatim>\<open>socket.socket\<close> only.
\<close>

theorem interception_points_not_restored:
  "(let r = run_sandboxed_script (s\<lparr>script_exists := True\<rparr>) p (fresh_process env wd)
    in builtins_import (final_state r) = Secure_import (profile_allowed_imports p) \<and>
       builtins_open (final_state r) \<noteq> Builtin_open \<and>
       Path_open (final_state r) \<noteq> Pathlib_open \<and>
       final_state r \<noteq> fresh_process env wd) \<and>
   Path_open (RestrictedFileSystem_exit fs (RestrictedFileSystem_enter fs a))
     = Secure_path_open (read_paths fs) (write_paths fs) \<and>
   os_remove (RestrictedFileSystem_exit fs (RestrictedFileSystem_enter fs a))
     = (if allow_delete fs then os_remove a else Block_remove) \<and>
   os_unlink (RestrictedFileSystem_exit fs (RestrictedFileSystem_enter fs a))
     = (if allow_delete fs then os_unlink a else Block_remove) \<and>
   (case RestrictedNetwork_enter n (fresh_process env wd) of
      (x, n', a') \<Rightarrow>
        x = None \<and>
        (case RestrictedNetwork_exit n' a' of
           (y, a'') \<Rightarrow>
             y = None \<and>
             socket_socket a'' = Socket_class \<and>
             urllib_request_urlopen a'' =
               Secure_urlopen (allowed_hosts n) (allowed_ports n) (allow_localhost n) \<and>
             HTTPConnection_init_attr a'' =
               Secure_http_connect (allowed_hosts n) (allowed_ports n) (allow_localhost n)))"
proof -
  let ?r = "run_sandboxed_script (s\<lparr>script_exists := True\<rparr>) p (fresh_process env wd)"
  have e: "script_exists (s\<lparr>script_exists := True\<rparr>)"
    by simp
  have i: "builtins_import (final_state ?r) = Secure_import (profile_allowed_imports p)"
    by (simp add: run_existing [OF e] stalled_import)
  have o: "builtins_open (final_state ?r) \<noteq> Builtin_open"
    by (simp add: run_existing [OF e] stalled_state_def RestrictedFileSystem_enter_def Let_def)
  have q: "Path_open (final_state ?r) \<noteq> Pathlib_open"
    by (simp add: run_existing [OF e] stalled_state_def RestrictedFileSystem_enter_def Let_def)
  have "builtins_import (fresh_process env wd) = Builtin_import"
    by (simp add: fresh_process_def)
  with i have d: "final_state ?r \<noteq> fresh_process env wd"
    by auto
  have f: "Path_open (RestrictedFileSystem_exit fs (RestrictedFileSystem_enter fs a))
             = Secure_path_open (read_paths fs) (write_paths fs)"
    by (simp add: RestrictedFileSystem_exit_def RestrictedFileSystem_enter_def Let_def)
  have g: "os_remove (RestrictedFileSystem_exit fs (RestrictedFileSystem_enter fs a))
             = (if allow_delete fs then os_remove a else Block_remove)"
    by (simp add: RestrictedFileSystem_exit_def RestrictedFileSystem_enter_def Let_def)
  have h: "os_unlink (RestrictedFileSystem_exit fs (RestrictedFileSystem_enter fs a))
             = (if allow_delete fs then os_unlink a else Block_remove)"
    by (simp add: RestrictedFileSystem_exit_def RestrictedFileSystem_enter_def Let_def)
  have k: "(case RestrictedNetwork_enter n (fresh_process env wd) of
      (x, n', a') \<Rightarrow>
        x = None \<and>
        (case RestrictedNetwork_exit n' a' of
           (y, a'') \<Rightarrow>
             y = None \<and>
             socket_socket a'' = Socket_class \<and>
             urllib_request_urlopen a'' =
               Secure_urlopen (allowed_hosts n) (allowed_ports n) (allow_localhost n) \<and>
             HTTPConnection_init_attr a'' =
               Secure_http_connect (allowed_hosts n) (allowed_ports n) (allow_localhost n)))"
    by (simp add: RestrictedNetwork_enter_def RestrictedNetwork_exit_def patch_urlopen_def
          patch_http_def import_statement_def builtin_import_def fresh_process_def Let_def)
  from i o q d f g h k show ?thesis
    by (simp add: Let_def)
qed

text \<open>
  No run of \<^verbatim>\<open>run_sandboxed_script\<close> activates all four guards, so the premise of C8 (a
  run in which all guards activate) is never met. For every profile and every existing
  script the activation loop stops in the network guard, after the import hook and the
  filesystem guard. The deactivation loop then calls \<^verbatim>\<open>__exit__\<close> of the environment guard
  (which was never entered) and, if that returns, of the network guard, and stops there
  with an exception.
\<close>

lemma no_run_activates_all_guards:
  "Network_kind \<notin> set (activated (run_sandboxed_script s p a))"
proof (cases "script_exists s")
  case True
  then show ?thesis
    by (simp add: run_existing)
next
  case False
  then show ?thesis
    by (simp add: run_sandboxed_script_def)
qed

lemma deactivation_stops_early:
  "(let r = run_sandboxed_script (s\<lparr>script_exists := True\<rparr>) p a
    in activated r = [Import_kind, Filesystem_kind] \<and>
       exit_calls r =
         (if profile_allow_access p then [Environment_kind, Network_kind]
          else [Environment_kind]) \<and>
       builtins_import (final_state r) = Secure_import (profile_allowed_imports p))"
proof -
  have e: "script_exists (s\<lparr>script_exists := True\<rparr>)"
    by simp
  show ?thesis
    by (simp add: run_existing [OF e] stalled_import Let_def)
qed

text \<open>
  C9. With the default profile and an existing script, \<^verbatim>\<open>run_sandboxed_script\<close> never opens
  or executes the script, and the exception it raises is the \<^verbatim>\<open>AttributeError\<close> of the
  environment guard's \<^verbatim>\<open>__exit__\<close>, raised after \<^verbatim>\<open>os.environ\<close> has been cleared; for any
  profile the exception is the one of a guard, not the one of the guarded open. The
  guarded open itself would refuse the script under the default profile.
\<close>

theorem default_profile_run_raises_attribute_error:
  "(let r = run_sandboxed_script (s\<lparr>script_exists := True\<rparr>) DEFAULT_SECURITY_PROFILE a
    in result r = Raised (AttributeError ''original_environ'') \<and>
       \<not> script_opened r \<and> \<not> script_executed r \<and>
       environ (final_state r) = Map.empty) \<and>
   (let r = run_sandboxed_script (s\<lparr>script_exists := True\<rparr>) p a
    in result r =
         Raised (if profile_allow_access p then socket_denial (profile_allowed_imports p)
                 else AttributeError ''original_environ'') \<and>
       \<not> script_opened r \<and> \<not> script_executed r) \<and>
   secure_open wd [] [] (script_path s) ''r''
     = Inl (SecurityError (File_access (script_path s) False))"
proof -
  have e: "script_exists (s\<lparr>script_exists := True\<rparr>)"
    by simp
  have d: "\<not> profile_allow_access DEFAULT_SECURITY_PROFILE"
    by (simp add: profile_allow_access_def DEFAULT_SECURITY_PROFILE_def get_or_def)
  have o: "secure_open wd [] [] (script_path s) ''r''
             = Inl (SecurityError (File_access (script_path s) False))"
    by (simp add: secure_open_def is_path_allowed_def is_write_mode_def Let_def)
  show ?thesis
    using d o by (simp add: run_existing [OF e] Let_def)
qed

end
